theory Spec2Isabelle
  imports Main
begin

section \<open>Values of the host language\<close>

text \<open>
  The module is JavaScript. Reading a property of \<open>null\<close> or \<open>undefined\<close> throws a
  \<open>TypeError\<close>; that is the only exception the module can raise by itself. A field that
  may hold \<open>null\<close>/\<open>undefined\<close> is an \<open>option\<close>, with \<open>None\<close> for both (the code only
  ever tests such fields for truthiness or dereferences them).
\<close>

datatype js_error = TypeError

text \<open>A property that is never given an object: it is either missing or \<open>null\<close>.\<close>

datatype js_unset = Undefined | Null

section \<open>Native sources and their statistics\<close>

text \<open>
  \<open>source.bitrate\<close> is the native accumulator; \<open>GetInstant\<close> is the number it returns.
  The counters are integer valued numbers. The only arithmetic of the module is a
  multiplication by 8, which is exact on such numbers, so they are modelled as \<open>int\<close>.
\<close>

record acumulator =
  GetInstant :: int

text \<open>
  The native source and the statistics object built from it have the same five keys; they
  differ in what \<open>bitrate\<close> holds (the accumulator, or a number).
\<close>

record 'b counters =
  numPackets :: int
  numRTCPPackets :: int
  totalBytes :: int
  totalRTCPBytes :: int
  bitrate :: 'b

type_synonym outgoing_source = "acumulator counters"
type_synonym source_stats = "int counters"

text \<open>An object with the three keys \<open>media\<close>, \<open>rtx\<close> and \<open>fec\<close>.\<close>

record 'a by_role =
  media :: 'a
  rtx :: 'a
  fec :: 'a

text \<open>The source group handed to the track: each role is a source, or absent.\<close>

type_synonym source_group = "outgoing_source option by_role"

definition getStatsFromOutgoingSource :: "outgoing_source option \<Rightarrow> js_error + source_stats" where
  "getStatsFromOutgoingSource source =
     (case source of
        None \<Rightarrow> Inl TypeError
      | Some s \<Rightarrow>
          Inr \<lparr> numPackets = numPackets s,
                numRTCPPackets = numRTCPPackets s,
                totalBytes = totalBytes s,
                totalRTCPBytes = totalRTCPBytes s,
                bitrate = GetInstant (bitrate s) * 8 \<rparr>)"

section \<open>The track object\<close>

type_synonym sender_handle = nat
type_synonym incoming_track = nat
type_synonym link_ref = nat

text \<open>
  The fields of \<open>OutgoingStreamTrack\<close>. \<open>id\<close> and \<open>media\<close> carry a prime because the plain
  names are taken. \<open>transponder\<close> is not set by the constructor. \<open>transpoder\<close> and
  \<open>transport\<close> are the two properties that \<open>onTransponderStopped\<close> and \<open>detach\<close> assign.
\<close>

record OutgoingStreamTrack =
  id' :: string
  media' :: string
  sender :: "sender_handle option"
  source :: "source_group option"
  muted :: bool
  transponder :: "link_ref option"
  transpoder :: js_unset
  transport :: js_unset

datatype event = Remb int | Muted bool | Stopped

section \<open>The forwarding link\<close>

text \<open>
  Modelled from the spec: the \<open>Transponder\<close> class (\<open>./Transponder\<close>) and the native
  \<open>RTPStreamTransponderFacade\<close> are not part of the module. The link is bound at
  construction to a source group and a sender; it carries one incoming-source binding and
  a muted flag; \<open>mute\<close> applies immediately; it terminates exactly once, emitting a
  one-shot terminal notification, either in response to \<open>stop()\<close> or autonomously.
  \<open>l_mute_calls\<close> and \<open>l_stop_calls\<close> record what the track invoked on the link, and
  \<open>l_listener\<close> whether the track's handler is subscribed to the terminal notification.
\<close>

record link =
  l_source :: "source_group option"
  l_sender :: "sender_handle option"
  l_muted :: bool
  l_mute_calls :: "bool list"
  l_incoming :: "incoming_track option"
  l_listener :: bool
  l_stop_calls :: nat
  l_terminated :: bool

text \<open>
  The state the operations act on: the track (\<open>this\<close>), the links created so far (a store
  indexed by reference; \<open>allocated\<close> is the number of links created), and the
  notifications published on the track's emitter, oldest first. The subscribers of the
  emitter are outside the module: \<open>emit\<close> records the notification, and a subscriber is
  taken not to call back into the track while it is being notified.
\<close>

record world =
  this :: OutgoingStreamTrack
  links :: "link_ref \<Rightarrow> link"
  allocated :: nat
  emitted :: "event list"

definition emit :: "event \<Rightarrow> world \<Rightarrow> world" where
  "emit e w = w\<lparr> emitted := emitted w @ [e] \<rparr>"

definition new_link :: "source_group option \<Rightarrow> sender_handle option \<Rightarrow> link" where
  "new_link src sndr =
     \<lparr> l_source = src, l_sender = sndr, l_muted = False, l_mute_calls = [],
       l_incoming = None, l_listener = False, l_stop_calls = 0, l_terminated = False \<rparr>"

definition unused_link :: link where
  "unused_link = new_link None None"

definition constructor ::
    "string \<Rightarrow> string \<Rightarrow> sender_handle option \<Rightarrow> source_group option \<Rightarrow> world" where
  "constructor m i sndr src =
     \<lparr> this = \<lparr> id' = i, media' = m, sender = sndr, source = src, muted = False,
                transponder = None, transpoder = Undefined, transport = Undefined \<rparr>,
       links = (\<lambda>_. unused_link),
       allocated = 0,
       emitted = [] \<rparr>"

definition onTransponderStopped :: "world \<Rightarrow> world" where
  "onTransponderStopped w = w\<lparr> this := (this w)\<lparr> transpoder := Null \<rparr> \<rparr>"

definition onremb :: "int \<Rightarrow> world \<Rightarrow> world" where
  "onremb b w = emit (Remb b) w"

subsection \<open>Operations of the link\<close>

text \<open>
  Modelled from the spec: the methods of the absent \<open>Transponder\<close> class, as far as the
  track uses them. \<open>Transponder_new\<close> stands for
  \<open>new Transponder(new Native.RTPStreamTransponderFacade(source, sender, track))\<close>.
  \<open>fire_stopped\<close> is the one-shot terminal notification: it happens at most once in a
  link's lifetime and runs the track's handler when that is subscribed (a \<open>once\<close>
  subscription, gone after it has run). What a second \<open>stop()\<close> on a link does is left
  open by the spec; here it is counted in \<open>l_stop_calls\<close> and does nothing else. No
  method of the link throws.
\<close>

definition Transponder_new ::
    "source_group option \<Rightarrow> sender_handle option \<Rightarrow> world \<Rightarrow> link_ref \<times> world" where
  "Transponder_new src sndr w =
     (allocated w,
      w\<lparr> links := (links w)(allocated w := new_link src sndr),
         allocated := Suc (allocated w) \<rparr>)"

definition Transponder_mute :: "link_ref \<Rightarrow> bool \<Rightarrow> world \<Rightarrow> world" where
  "Transponder_mute l muting w =
     w\<lparr> links := (links w)(l := (links w l)\<lparr> l_muted := muting,
                                            l_mute_calls := l_mute_calls (links w l) @ [muting] \<rparr>) \<rparr>"

definition Transponder_setIncomingTrack :: "link_ref \<Rightarrow> incoming_track \<Rightarrow> world \<Rightarrow> world" where
  "Transponder_setIncomingTrack l track w =
     w\<lparr> links := (links w)(l := (links w l)\<lparr> l_incoming := Some track \<rparr>) \<rparr>"

definition Transponder_once_stopped :: "link_ref \<Rightarrow> world \<Rightarrow> world" where
  "Transponder_once_stopped l w =
     w\<lparr> links := (links w)(l := (links w l)\<lparr> l_listener := True \<rparr>) \<rparr>"

definition Transponder_off_stopped :: "link_ref \<Rightarrow> world \<Rightarrow> world" where
  "Transponder_off_stopped l w =
     w\<lparr> links := (links w)(l := (links w l)\<lparr> l_listener := False \<rparr>) \<rparr>"

definition fire_stopped :: "link_ref \<Rightarrow> world \<Rightarrow> world" where
  "fire_stopped l w =
     (if l_terminated (links w l) then w
      else
        let w1 = w\<lparr> links := (links w)(l := (links w l)\<lparr> l_terminated := True,
                                                         l_listener := False \<rparr>) \<rparr>
        in if l_listener (links w l) then onTransponderStopped w1 else w1)"

definition Transponder_stop :: "link_ref \<Rightarrow> world \<Rightarrow> world" where
  "Transponder_stop l w =
     fire_stopped l
       (w\<lparr> links := (links w)(l := (links w l)\<lparr> l_stop_calls := Suc (l_stop_calls (links w l)) \<rparr>) \<rparr>)"

subsection \<open>Operations of the track\<close>

definition getStats :: "OutgoingStreamTrack \<Rightarrow> js_error + source_stats by_role" where
  "getStats t =
     (case source t of
        None \<Rightarrow> Inl TypeError
      | Some src \<Rightarrow>
          (case getStatsFromOutgoingSource (media src) of
             Inl e \<Rightarrow> Inl e
           | Inr m \<Rightarrow>
               (case getStatsFromOutgoingSource (rtx src) of
                  Inl e \<Rightarrow> Inl e
                | Inr r \<Rightarrow>
                    (case getStatsFromOutgoingSource (fec src) of
                       Inl e \<Rightarrow> Inl e
                     | Inr f \<Rightarrow> Inr \<lparr> media = m, rtx = r, fec = f \<rparr>))))"

definition getSSRCs :: "OutgoingStreamTrack \<Rightarrow> js_error + outgoing_source option by_role" where
  "getSSRCs t =
     (case source t of
        None \<Rightarrow> Inl TypeError
      | Some src \<Rightarrow> Inr \<lparr> media = media src, rtx = rtx src, fec = fec src \<rparr>)"

definition isMuted :: "world \<Rightarrow> bool" where
  "isMuted w = muted (this w)"

definition getTransponder :: "world \<Rightarrow> link_ref option" where
  "getTransponder w = transponder (this w)"

definition mute :: "bool \<Rightarrow> world \<Rightarrow> world" where
  "mute muting w =
     (let w1 = (case transponder (this w) of
                  None \<Rightarrow> w
                | Some l \<Rightarrow> Transponder_mute l muting w)
      in if muted (this w1) \<noteq> muting
         then emit (Muted muting) (w1\<lparr> this := (this w1)\<lparr> muted := muting \<rparr> \<rparr>)
         else w1)"

definition detach :: "world \<Rightarrow> world" where
  "detach w =
     (case transponder (this w) of
        None \<Rightarrow> w
      | Some l \<Rightarrow>
          let w1 = Transponder_off_stopped l w;
              w2 = Transponder_stop l w1
          in w2\<lparr> this := (this w2)\<lparr> transport := Null \<rparr> \<rparr>)"

definition attachTo :: "incoming_track \<Rightarrow> world \<Rightarrow> link_ref \<times> world" where
  "attachTo incomingStreamTrack w =
     (let w1 = detach w;
          (l, w2) = Transponder_new (source (this w1)) (sender (this w1)) w1;
          w3 = w2\<lparr> this := (this w2)\<lparr> transponder := Some l \<rparr> \<rparr>;
          w4 = (if muted (this w3) then Transponder_mute l (muted (this w3)) w3 else w3);
          w5 = Transponder_setIncomingTrack l incomingStreamTrack w4;
          w6 = Transponder_once_stopped l w5
      in (l, w6))"

definition stop :: "world \<Rightarrow> world" where
  "stop w =
     (if sender (this w) = None then w
      else
        let w1 = detach w;
            w2 = emit Stopped w1
        in w2\<lparr> this := (this w2)\<lparr> source := None, sender := None \<rparr> \<rparr>)"

subsection \<open>Sequences of calls\<close>

text \<open>
  What can happen to a track, one after the other (the module is single threaded): the
  four public lifecycle calls, a link terminating on its own, and a native bitrate
  estimation. Only a link that was created can terminate.
\<close>

datatype op = Mute bool | AttachTo incoming_track | Detach | Stop
  | LinkStopped link_ref | NativeRemb int

fun step :: "world \<Rightarrow> op \<Rightarrow> world" where
  "step w (Mute b) = mute b w"
| "step w (AttachTo src) = snd (attachTo src w)"
| "step w Detach = detach w"
| "step w Stop = stop w"
| "step w (LinkStopped l) = (if l < allocated w then fire_stopped l w else w)"
| "step w (NativeRemb b) = onremb b w"

definition run :: "world \<Rightarrow> op list \<Rightarrow> world" where
  "run w ops = foldl step w ops"

subsection \<open>One live link\<close>

text \<open>
  \<open>one_live_link n w\<close>: \<open>Suc n\<close> links were created, the track refers to the last of them,
  which has neither been stopped nor terminated, and every earlier link has had \<open>stop()\<close>
  invoked exactly once and has terminated.
\<close>

definition one_live_link :: "nat \<Rightarrow> world \<Rightarrow> bool" where
  "one_live_link n w \<longleftrightarrow>
     allocated w = Suc n \<and> getTransponder w = Some n \<and>
     l_stop_calls (links w n) = 0 \<and> \<not> l_terminated (links w n) \<and>
     (\<forall>l<n. l_stop_calls (links w l) = 1 \<and> l_terminated (links w l))"

subsection \<open>Concrete tracks\<close>

text \<open>
  A source group with all three roles, whose media source has the counters 100, 5, 15000
  and 400 and whose accumulator reports 64000; the same group without \<open>rtx\<close> and \<open>fec\<close>;
  and a live track on each.
\<close>

definition idle_source :: outgoing_source where
  "idle_source =
     \<lparr> numPackets = 0, numRTCPPackets = 0, totalBytes = 0, totalRTCPBytes = 0,
       bitrate = \<lparr> GetInstant = 0 \<rparr> \<rparr>"

definition idle_stats :: source_stats where
  "idle_stats =
     \<lparr> numPackets = 0, numRTCPPackets = 0, totalBytes = 0, totalRTCPBytes = 0,
       bitrate = 0 \<rparr>"

definition sources0 :: source_group where
  "sources0 =
     \<lparr> media = Some \<lparr> numPackets = 100, numRTCPPackets = 5, totalBytes = 15000,
                      totalRTCPBytes = 400, bitrate = \<lparr> GetInstant = 64000 \<rparr> \<rparr>,
       rtx = Some idle_source,
       fec = Some idle_source \<rparr>"

definition media_only :: source_group where
  "media_only = sources0\<lparr> rtx := None, fec := None \<rparr>"

definition track0 :: world where
  "track0 = constructor ''video'' ''t1'' (Some 1) (Some sources0)"

definition track_media_only :: world where
  "track_media_only = constructor ''audio'' ''t2'' (Some 1) (Some media_only)"

section \<open>Unfolding the operations\<close>

lemmas link_ops = Transponder_new_def Transponder_mute_def Transponder_setIncomingTrack_def
  Transponder_once_stopped_def Transponder_off_stopped_def fire_stopped_def Transponder_stop_def
  onTransponderStopped_def new_link_def unused_link_def

lemmas track_ops = mute_def detach_def attachTo_def stop_def emit_def getTransponder_def
  constructor_def onremb_def isMuted_def

lemmas examples = track0_def track_media_only_def sources0_def media_only_def
  idle_source_def idle_stats_def

section \<open>What detach and the termination handler leave behind\<close>

text \<open>
  \<open>detach\<close> assigns \<open>transport\<close> and the termination handler assigns \<open>transpoder\<close>; neither
  of them, nor \<open>mute\<close> or \<open>stop\<close>, ever assigns \<open>transponder\<close>. Only \<open>attachTo\<close> does.
\<close>

lemma detach_transponder: "transponder (this (detach w)) = transponder (this w)"
  by (simp add: track_ops link_ops Let_def split: option.splits)

lemma fire_stopped_transponder: "transponder (this (fire_stopped l w)) = transponder (this w)"
  by (simp add: link_ops Let_def)

lemma stop_transponder: "transponder (this (stop w)) = transponder (this w)"
  by (simp add: track_ops link_ops Let_def split: option.splits)

lemma mute_transponder: "transponder (this (mute b w)) = transponder (this w)"
  by (simp add: track_ops link_ops Let_def split: option.splits)

lemma detach_counts_stop:
  "transponder (this w) = Some l \<Longrightarrow>
     l_stop_calls (links (detach w) l) = Suc (l_stop_calls (links w l))"
  by (simp add: track_ops link_ops Let_def)

text \<open>
  Claim C1: after \<open>detach()\<close> on an attached track the link reference is cleared and
  \<open>getTransponder()\<close> returns none. The code does not do that: on the track \<open>t1\<close>, after
  \<open>attachTo(7)\<close> has returned link 0, \<open>detach()\<close> stops link 0 once and sets \<open>transport\<close>
  to \<open>null\<close>, and \<open>getTransponder()\<close> still returns link 0, which has terminated.
\<close>

theorem detach_leaves_link_reference:
  "getTransponder (snd (attachTo 7 track0)) = Some 0
   \<and> getTransponder (detach (snd (attachTo 7 track0))) = Some 0
   \<and> transport (this (detach (snd (attachTo 7 track0)))) = Null
   \<and> l_stop_calls (links (detach (snd (attachTo 7 track0))) 0) = 1
   \<and> l_terminated (links (detach (snd (attachTo 7 track0))) 0)"
  by (simp add: examples track_ops link_ops Let_def)

section \<open>How often a link is stopped\<close>

text \<open>
  Claim C2: the track never invokes \<open>stop()\<close> more than once on a link it created. The
  code does: after \<open>attachTo(7)\<close>, \<open>detach()\<close>, \<open>detach()\<close> link 0 has had \<open>stop()\<close> invoked
  twice, and so it has after \<open>attachTo(7)\<close>, \<open>detach()\<close>, \<open>attachTo(8)\<close> and after
  \<open>attachTo(7)\<close>, \<open>stop()\<close>, \<open>detach()\<close>.
\<close>

theorem link_stopped_twice:
  "l_stop_calls (links (run track0 [AttachTo 7, Detach, Detach]) 0) = 2
   \<and> l_stop_calls (links (run track0 [AttachTo 7, Detach, AttachTo 8]) 0) = 2
   \<and> l_stop_calls (links (run track0 [AttachTo 7, Stop, Detach]) 0) = 2"
  by (simp add: run_def examples track_ops link_ops Let_def)

text \<open>
  The second half of that claim does hold: when \<open>attachTo\<close> is the only call made on a
  new track, after each call there is exactly one live link, the one just returned, and
  every link returned before has been stopped exactly once.
\<close>

lemma attachTo_first:
  "allocated w = 0 \<Longrightarrow> transponder (this w) = None \<Longrightarrow> one_live_link 0 (snd (attachTo s w))"
  by (simp add: one_live_link_def track_ops link_ops Let_def)

lemma attachTo_next:
  "one_live_link n w \<Longrightarrow> one_live_link (Suc n) (snd (attachTo s w))"
  by (auto simp add: one_live_link_def track_ops link_ops Let_def less_Suc_eq)

lemma attachTo_run:
  "one_live_link n w \<Longrightarrow> one_live_link (n + length ss) (run w (map AttachTo ss))"
proof (induction ss arbitrary: n w)
  case Nil
  then show ?case by (simp add: run_def)
next
  case (Cons s ss)
  have "one_live_link (Suc n) (snd (attachTo s w))"
    using Cons.prems by (rule attachTo_next)
  then have "one_live_link (Suc n + length ss) (run (snd (attachTo s w)) (map AttachTo ss))"
    by (rule Cons.IH)
  then show ?case by (simp add: run_def)
qed

lemma attachTo_sequence_one_live_link:
  "one_live_link (length ss) (run (constructor m i sndr src) (map AttachTo (s # ss)))"
proof -
  have "one_live_link 0 (snd (attachTo s (constructor m i sndr src)))"
    by (rule attachTo_first) (simp_all add: constructor_def)
  from attachTo_run [OF this, of ss] show ?thesis
    by (simp add: run_def)
qed

section \<open>The stopped track\<close>

text \<open>
  Claim C3, as stated, fails: on the stopped track \<open>t1\<close>, \<open>mute(true)\<close> changes the muted
  flag and emits \<open>muted\<close>, and \<open>attachTo(7)\<close> creates link 0 and stores it.
\<close>

theorem stopped_track_not_inert:
  "sender (this (stop track0)) = None
   \<and> muted (this (stop track0)) = False
   \<and> muted (this (mute True (stop track0))) = True
   \<and> emitted (stop track0) = [Stopped]
   \<and> emitted (mute True (stop track0)) = [Stopped, Muted True]
   \<and> getTransponder (stop track0) = None
   \<and> getTransponder (snd (attachTo 7 (stop track0))) = Some 0
   \<and> allocated (stop track0) = 0
   \<and> allocated (snd (attachTo 7 (stop track0))) = 1"
  by (simp add: examples track_ops link_ops Let_def)

text \<open>
  Claim C3, amended: on a track on which \<open>stop()\<close> has completed (the sender is cleared),
  a further \<open>stop()\<close> changes nothing, and \<open>detach()\<close> changes nothing when the track
  holds no link reference. \<open>mute\<close> and \<open>attachTo\<close> are not guarded by the terminal state:
  \<open>mute(b)\<close> sets the flag to \<open>b\<close> and emits \<open>muted\<close> exactly when \<open>b\<close> differs from the
  flag (it changes nothing when \<open>b\<close> is the flag and no link is referenced), and
  \<open>attachTo\<close> creates, stores and returns a new link without emitting anything.
\<close>

theorem stopped_track_operations:
  "sender (this w) = None \<Longrightarrow>
     stop w = w
   \<and> (transponder (this w) = None \<longrightarrow> detach w = w)
   \<and> muted (this (mute b w)) = b
   \<and> emitted (mute b w) = emitted w @ (if b \<noteq> muted (this w) then [Muted b] else [])
   \<and> (transponder (this w) = None \<and> muted (this w) = b \<longrightarrow> mute b w = w)
   \<and> fst (attachTo s w) = allocated w
   \<and> getTransponder (snd (attachTo s w)) = Some (allocated w)
   \<and> allocated (snd (attachTo s w)) = Suc (allocated w)
   \<and> emitted (snd (attachTo s w)) = emitted w"
  by (simp add: track_ops link_ops Let_def split: option.splits)

theorem stopped_track_operations_witness:
  "sender (this (stop track0)) = None
   \<and> transponder (this (stop track0)) = None
   \<and> muted (this (stop track0)) = False
   \<and> stop (stop track0) = stop track0
   \<and> detach (stop track0) = stop track0
   \<and> mute False (stop track0) = stop track0
   \<and> emitted (mute True (stop track0)) = emitted (stop track0) @ [Muted True]
   \<and> getTransponder (snd (attachTo 7 (stop track0))) = Some 0"
proof -
  have h: "sender (this (stop track0)) = None"
    by (simp add: examples track_ops link_ops Let_def)
  have t: "transponder (this (stop track0)) = None"
    by (simp add: examples track_ops link_ops Let_def)
  have m: "muted (this (stop track0)) = False"
    by (simp add: examples track_ops link_ops Let_def)
  have a: "allocated (stop track0) = 0"
    by (simp add: examples track_ops link_ops Let_def)
  from stopped_track_operations [OF h, of True 7] stopped_track_operations [OF h, of False 7]
    h t m a
  show ?thesis by simp
qed

section \<open>A link that terminates on its own\<close>

text \<open>
  Claim C4: when the link of an attached track terminates on its own, the handler
  installed by \<open>attachTo\<close> clears the link reference, so that \<open>getTransponder()\<close> returns
  none and \<open>stop()\<close> is not invoked on that link afterwards. The code does not do that:
  on the track \<open>t1\<close>, after \<open>attachTo(7)\<close> has returned link 0 and link 0 has terminated,
  the handler has set \<open>transpoder\<close> to \<open>null\<close>, \<open>getTransponder()\<close> still returns link 0,
  and a following \<open>detach()\<close> invokes \<open>stop()\<close> on the terminated link.
\<close>

theorem self_termination_leaves_link_reference:
  "l_listener (links (snd (attachTo 7 track0)) 0)
   \<and> l_terminated (links (step (snd (attachTo 7 track0)) (LinkStopped 0)) 0)
   \<and> transpoder (this (step (snd (attachTo 7 track0)) (LinkStopped 0))) = Null
   \<and> getTransponder (step (snd (attachTo 7 track0)) (LinkStopped 0)) = Some 0
   \<and> l_stop_calls (links (step (snd (attachTo 7 track0)) (LinkStopped 0)) 0) = 0
   \<and> l_stop_calls (links (detach (step (snd (attachTo 7 track0)) (LinkStopped 0))) 0) = 1"
  by (simp add: examples track_ops link_ops Let_def)

section \<open>Stopping twice\<close>

text \<open>
  Claim C5: calling \<open>stop()\<close> twice emits \<open>stopped\<close> exactly once, and the second call
  changes nothing: the state after two calls, notifications included, is the state after
  one. On a live track (the sender is present) the two calls together publish exactly one
  notification, \<open>stopped\<close>.
\<close>

theorem stop_twice:
  "stop (stop w) = stop w
   \<and> (sender (this w) \<noteq> None \<longrightarrow> emitted (stop (stop w)) = emitted w @ [Stopped])"
  by (simp add: track_ops link_ops Let_def split: option.splits)

theorem stop_twice_witness:
  "sender (this track0) \<noteq> None
   \<and> stop (stop track0) = stop track0
   \<and> emitted (stop (stop track0)) = [Stopped]"
proof -
  have h: "sender (this track0) \<noteq> None"
    by (simp add: examples constructor_def)
  have e: "emitted track0 = []"
    by (simp add: examples constructor_def)
  from stop_twice [of track0] h
  have a: "stop (stop track0) = stop track0"
    and b: "emitted (stop (stop track0)) = emitted track0 @ [Stopped]"
    by blast+
  from b e have "emitted (stop (stop track0)) = [Stopped]" by simp
  with h a show ?thesis by blast
qed

text \<open>
  Whatever is done to a track, and in whatever order, \<open>stopped\<close> is published at most
  once in its life.
\<close>

lemma stopped_step:
  "(sender (this w) \<noteq> None \<longrightarrow> Stopped \<notin> set (emitted w)) \<and> count_list (emitted w) Stopped \<le> 1
   \<Longrightarrow> (sender (this (step w x)) \<noteq> None \<longrightarrow> Stopped \<notin> set (emitted (step w x)))
      \<and> count_list (emitted (step w x)) Stopped \<le> 1"
  by (cases x)
    (auto simp add: track_ops link_ops Let_def count_list_0_iff split: option.splits if_splits)

lemma stopped_run:
  "(sender (this w) \<noteq> None \<longrightarrow> Stopped \<notin> set (emitted w)) \<and> count_list (emitted w) Stopped \<le> 1
   \<Longrightarrow> (sender (this (run w xs)) \<noteq> None \<longrightarrow> Stopped \<notin> set (emitted (run w xs)))
      \<and> count_list (emitted (run w xs)) Stopped \<le> 1"
proof (induction xs arbitrary: w)
  case Nil
  then show ?case by (simp add: run_def)
next
  case (Cons x xs)
  from stopped_step [OF Cons.prems]
  have "(sender (this (step w x)) \<noteq> None \<longrightarrow> Stopped \<notin> set (emitted (step w x)))
      \<and> count_list (emitted (step w x)) Stopped \<le> 1" .
  from Cons.IH [OF this] show ?case by (simp add: run_def)
qed

lemma stopped_at_most_once:
  "count_list (emitted (run (constructor m i sndr src) xs)) Stopped \<le> 1"
proof -
  have "(sender (this (constructor m i sndr src)) \<noteq> None
           \<longrightarrow> Stopped \<notin> set (emitted (constructor m i sndr src)))
        \<and> count_list (emitted (constructor m i sndr src)) Stopped \<le> 1"
    by (simp add: constructor_def)
  from stopped_run [OF this] show ?thesis by simp
qed

section \<open>Muting\<close>

text \<open>
  Claim C6: \<open>mute(b)\<close> forwards \<open>b\<close> to the link the track refers to, whenever there is
  one and whether or not the flag changes; the flag is \<open>b\<close> afterwards, and \<open>muted\<close> is
  emitted exactly when \<open>b\<close> differs from the flag before the call. So of two consecutive
  \<open>mute(true)\<close> calls the second emits nothing, the two together emit one \<open>muted\<close> on a
  track that was not muted, and \<open>mute\<close> of the current flag emits nothing.
\<close>

theorem mute_forwards_and_emits_on_change:
  "(\<forall>l. transponder (this w) = Some l \<longrightarrow>
          l_muted (links (mute b w) l) = b
        \<and> l_mute_calls (links (mute b w) l) = l_mute_calls (links w l) @ [b])
   \<and> muted (this (mute b w)) = b
   \<and> emitted (mute b w) = emitted w @ (if b \<noteq> muted (this w) then [Muted b] else [])
   \<and> emitted (mute True (mute True w)) = emitted (mute True w)
   \<and> (\<not> muted (this w) \<longrightarrow> emitted (mute True (mute True w)) = emitted w @ [Muted True])
   \<and> emitted (mute (muted (this w)) w) = emitted w"
  by (simp add: track_ops link_ops Let_def split: option.splits)

theorem mute_forwards_and_emits_on_change_witness:
  "transponder (this (snd (attachTo 7 track0))) = Some 0
   \<and> \<not> muted (this (snd (attachTo 7 track0)))
   \<and> l_mute_calls (links (snd (attachTo 7 track0)) 0) = []
   \<and> l_mute_calls (links (mute False (snd (attachTo 7 track0))) 0) = [False]
   \<and> emitted (mute False (snd (attachTo 7 track0))) = []
   \<and> l_muted (links (mute True (snd (attachTo 7 track0))) 0)
   \<and> emitted (mute True (mute True (snd (attachTo 7 track0)))) = [Muted True]"
proof -
  have t: "transponder (this (snd (attachTo 7 track0))) = Some 0"
    by (simp add: examples track_ops link_ops Let_def)
  have m: "\<not> muted (this (snd (attachTo 7 track0)))"
    by (simp add: examples track_ops link_ops Let_def)
  have c: "l_mute_calls (links (snd (attachTo 7 track0)) 0) = []"
    by (simp add: examples track_ops link_ops Let_def)
  have e: "emitted (snd (attachTo 7 track0)) = []"
    by (simp add: examples track_ops link_ops Let_def)
  from mute_forwards_and_emits_on_change [of "snd (attachTo 7 track0)" False]
    mute_forwards_and_emits_on_change [of "snd (attachTo 7 track0)" True] t m c e
  show ?thesis by simp
qed

text \<open>
  Claim C7: on a track whose muted flag is true, \<open>attachTo\<close> calls \<open>mute(true)\<close> on the
  link it creates, once and before it returns: the link returned is new, it is the one
  the track refers to, it is muted, and it is bound to the incoming track.
\<close>

theorem attachTo_propagates_mute:
  "muted (this w) \<Longrightarrow>
     fst (attachTo s w) = allocated w
   \<and> getTransponder (snd (attachTo s w)) = Some (fst (attachTo s w))
   \<and> l_muted (links (snd (attachTo s w)) (fst (attachTo s w)))
   \<and> l_mute_calls (links (snd (attachTo s w)) (fst (attachTo s w))) = [True]
   \<and> l_incoming (links (snd (attachTo s w)) (fst (attachTo s w))) = Some s"
  by (simp add: track_ops link_ops Let_def split: option.splits)

theorem attachTo_propagates_mute_witness:
  "muted (this (mute True (snd (attachTo 7 track0))))
   \<and> fst (attachTo 8 (mute True (snd (attachTo 7 track0)))) = 1
   \<and> l_muted (links (snd (attachTo 8 (mute True (snd (attachTo 7 track0))))) 1)
   \<and> l_mute_calls (links (snd (attachTo 8 (mute True (snd (attachTo 7 track0))))) 1) = [True]"
proof -
  have h: "muted (this (mute True (snd (attachTo 7 track0))))"
    by (simp add: examples track_ops link_ops Let_def)
  have a: "allocated (mute True (snd (attachTo 7 track0))) = 1"
    by (simp add: examples track_ops link_ops Let_def)
  from attachTo_propagates_mute [OF h, of 8] h a show ?thesis
    by (elim conjE) simp
qed

section \<open>Statistics\<close>

text \<open>
  Claim C8, as stated, fails: on a live track whose source group has a media source but
  neither \<open>rtx\<close> nor \<open>fec\<close>, \<open>getStats()\<close> throws a \<open>TypeError\<close>. (\<open>getSSRCs()\<close> on the same
  track returns the two absent entries.)
\<close>

theorem getStats_absent_role_throws:
  "getStats (this track_media_only) = Inl TypeError
   \<and> getSSRCs (this track_media_only) =
       Inr \<lparr> media = Some \<lparr> numPackets = 100, numRTCPPackets = 5, totalBytes = 15000,
                            totalRTCPBytes = 400, bitrate = \<lparr> GetInstant = 64000 \<rparr> \<rparr>,
             rtx = None, fec = None \<rparr>"
  by (simp add: getStats_def getSSRCs_def getStatsFromOutgoingSource_def examples constructor_def)

text \<open>
  Claim C8, amended: \<open>getStats()\<close> returns a mapping exactly when the track still has its
  source group and all three roles of it are present, and the mapping then has a snapshot
  for every role; in every other case, an absent \<open>rtx\<close> or \<open>fec\<close> among them, it throws a
  \<open>TypeError\<close>.
\<close>

theorem getStats_succeeds_iff_all_present:
  "((\<exists>st. getStats t = Inr st) \<longleftrightarrow>
      (\<exists>sg m r f. source t = Some sg \<and> media sg = Some m \<and> rtx sg = Some r \<and> fec sg = Some f))
   \<and> (getStats t = Inl TypeError \<longleftrightarrow>
      (\<forall>sg. source t = Some sg \<longrightarrow> media sg = None \<or> rtx sg = None \<or> fec sg = None))"
  by (auto simp add: getStats_def getStatsFromOutgoingSource_def split: option.splits sum.splits)

theorem getStats_succeeds_iff_all_present_witness:
  "source (this track_media_only) = Some media_only
   \<and> rtx media_only = None
   \<and> getStats (this track_media_only) = Inl TypeError
   \<and> (\<exists>st. getStats (this track0) = Inr st)"
proof -
  have s: "source (this track_media_only) = Some media_only"
    by (simp add: examples constructor_def)
  have r: "rtx media_only = None"
    by (simp add: examples)
  have s0: "source (this track0) = Some sources0"
    by (simp add: examples constructor_def)
  have p: "media sources0 \<noteq> None \<and> rtx sources0 \<noteq> None \<and> fec sources0 \<noteq> None"
    by (simp add: examples)
  from getStats_succeeds_iff_all_present [of "this track_media_only"]
    getStats_succeeds_iff_all_present [of "this track0"] s r s0 p
  show ?thesis by auto
qed

text \<open>
  Claim C9, as stated, fails: with the media counters 100, 5, 15000 and 400 and an
  accumulator that reports 64000, the \<open>bitrate\<close> of \<open>getStats().media\<close> is 512000, not
  64000.
\<close>

theorem getStats_bitrate_times_eight:
  "getStats (this track0) =
     Inr \<lparr> media = \<lparr> numPackets = 100, numRTCPPackets = 5, totalBytes = 15000,
                     totalRTCPBytes = 400, bitrate = 512000 \<rparr>,
           rtx = idle_stats, fec = idle_stats \<rparr>
   \<and> getStats (this track0) \<noteq>
     Inr \<lparr> media = \<lparr> numPackets = 100, numRTCPPackets = 5, totalBytes = 15000,
                     totalRTCPBytes = 400, bitrate = 64000 \<rparr>,
           rtx = idle_stats, fec = idle_stats \<rparr>"
  by (simp add: getStats_def getStatsFromOutgoingSource_def examples constructor_def)

text \<open>
  Claim C9, amended: on a track whose three sources are present, \<open>getStats().media\<close> has
  the four counters of the media source unchanged and, as \<open>bitrate\<close>, eight times what
  the accumulator of the media source reports (the accumulator counts bytes, the
  statistic is in bits per second): 100, 5, 15000, 400 and a reported 64000 give
  \<open>{numPackets:100, numRTCPPackets:5, totalBytes:15000, totalRTCPBytes:400, bitrate:512000}\<close>.
\<close>

theorem getStats_media_snapshot:
  "source t = Some sg \<Longrightarrow> media sg = Some m \<Longrightarrow> rtx sg = Some r \<Longrightarrow> fec sg = Some f \<Longrightarrow>
     \<exists>st. getStats t = Inr st
        \<and> media st = \<lparr> numPackets = numPackets m,
                       numRTCPPackets = numRTCPPackets m,
                       totalBytes = totalBytes m,
                       totalRTCPBytes = totalRTCPBytes m,
                       bitrate = 8 * GetInstant (bitrate m) \<rparr>"
  by (simp add: getStats_def getStatsFromOutgoingSource_def)

theorem getStats_media_snapshot_witness:
  "source (this track0) = Some sources0
   \<and> rtx sources0 = Some idle_source
   \<and> fec sources0 = Some idle_source
   \<and> (\<exists>st. getStats (this track0) = Inr st
          \<and> media st = \<lparr> numPackets = 100, numRTCPPackets = 5, totalBytes = 15000,
                         totalRTCPBytes = 400, bitrate = 512000 \<rparr>)"
proof -
  have s: "source (this track0) = Some sources0"
    by (simp add: examples constructor_def)
  have m: "media sources0 = Some \<lparr> numPackets = 100, numRTCPPackets = 5, totalBytes = 15000,
                      totalRTCPBytes = 400, bitrate = \<lparr> GetInstant = 64000 \<rparr> \<rparr>"
    by (simp add: examples)
  have r: "rtx sources0 = Some idle_source"
    by (simp add: examples)
  have f: "fec sources0 = Some idle_source"
    by (simp add: examples)
  from getStats_media_snapshot [OF s m r f] s r f show ?thesis by simp
qed

section \<open>Queries on a stopped track\<close>

lemma source_step: "source (this w) = None \<Longrightarrow> source (this (step w x)) = None"
  by (cases x) (simp_all add: track_ops link_ops Let_def split: option.splits)

lemma source_run: "source (this w) = None \<Longrightarrow> source (this (run w xs)) = None"
  unfolding run_def by (induction xs arbitrary: w) (simp_all add: source_step)

lemma source_stop: "sender (this w) \<noteq> None \<Longrightarrow> source (this (stop w)) = None"
  by (auto simp add: track_ops link_ops Let_def split: option.splits)

text \<open>
  Claim C10: once \<open>stop()\<close> has run on a live track, \<open>getStats()\<close> and \<open>getSSRCs()\<close> throw
  a \<open>TypeError\<close>, and they keep doing so whatever is done to the track afterwards: \<open>stop\<close>
  cleared the source reference, which both dereference and nothing sets again.
\<close>

theorem queries_throw_after_stop:
  "sender (this w) \<noteq> None \<Longrightarrow>
     getStats (this (run (stop w) xs)) = Inl TypeError
   \<and> getSSRCs (this (run (stop w) xs)) = Inl TypeError"
  by (simp add: getStats_def getSSRCs_def source_run source_stop)

theorem queries_throw_after_stop_witness:
  "sender (this track0) \<noteq> None
   \<and> (\<exists>st. getStats (this track0) = Inr st)
   \<and> getStats (this (stop track0)) = Inl TypeError
   \<and> getSSRCs (this (stop track0)) = Inl TypeError
   \<and> getStats (this (run (stop track0) [Mute True, AttachTo 7])) = Inl TypeError"
proof -
  have h: "sender (this track0) \<noteq> None"
    by (simp add: examples constructor_def)
  have g: "\<exists>st. getStats (this track0) = Inr st"
    by (simp add: getStats_def getStatsFromOutgoingSource_def examples constructor_def)
  from queries_throw_after_stop [OF h, of "[]"]
    queries_throw_after_stop [OF h, of "[Mute True, AttachTo 7]"] h g
  show ?thesis by (simp add: run_def)
qed

end
